theory Spec2Isabelle
  imports Main "HOL-Library.Word"
begin

section \<open>Words, traps and the kernel\<close>

text \<open>
  The C sources use three scalar types: \<^verbatim>\<open>long\<close> (and \<^verbatim>\<open>unsigned long\<close>, which has the
  same width), \<^verbatim>\<open>int\<close>, and \<^verbatim>\<open>const void *\<close>. Their widths are fixed by the target ABI and
  not by the sources, so they are type parameters here: a \<^verbatim>\<open>long\<close> is a \<open>'w word\<close>, an
  \<^verbatim>\<open>int\<close> is an \<open>'i word\<close>, and a pointer carries an address of the width of \<^verbatim>\<open>long\<close>.
  On RV64 (LP64) \<open>'w\<close> is 64 and \<open>'i\<close> is 32. Signedness is a reading of the bits
  (\<open>sint\<close> for \<^verbatim>\<open>long\<close> and \<^verbatim>\<open>int\<close>, \<open>uint\<close> for \<^verbatim>\<open>unsigned long\<close>), not a separate type.

  A call of a C function of this layer is a computation on the state \<open>'s\<close> of everything
  outside the layer (the kernel, the process memory it may read or write). It yields the
  \<^verbatim>\<open>long\<close> handed back to the caller, or \<open>None\<close> when the trap does not come back (the
  kernel ended the process), together with the state afterwards.
\<close>

type_synonym ('w, 's) trap = "'s \<Rightarrow> 'w word option \<times> 's"

text \<open>
  \<^verbatim>\<open>long __syscall6(long n, long a0, long a1, long a2, long a3, long a4, long a5);\<close>
  is only declared in \<^verbatim>\<open>uapi/syscall.h\<close>; its body is the architecture's trap sequence.
  Every function below takes it as its first parameter.
\<close>

type_synonym ('w, 's) sys6 =
  "'w word \<Rightarrow> 'w word \<Rightarrow> 'w word \<Rightarrow> 'w word \<Rightarrow> 'w word \<Rightarrow> 'w word \<Rightarrow> 'w word
    \<Rightarrow> ('w, 's) trap"

section \<open>\<^verbatim>\<open>userland/include/uapi/syscall.h\<close>\<close>

text \<open>\<^verbatim>\<open>#define __NR_write 0\<close>: an integer constant (identifiers cannot start with an
  underscore here, so the leading underscores of the C names are dropped throughout).\<close>

definition NR_write :: int where
  "NR_write = 0"

definition syscall0 :: "('w::len, 's) sys6 \<Rightarrow> 'w word \<Rightarrow> ('w, 's) trap" where
  "syscall0 syscall6 n = syscall6 n 0 0 0 0 0 0"

definition syscall1 :: "('w::len, 's) sys6 \<Rightarrow> 'w word \<Rightarrow> 'w word \<Rightarrow> ('w, 's) trap" where
  "syscall1 syscall6 n a0 = syscall6 n a0 0 0 0 0 0"

definition syscall2 ::
  "('w::len, 's) sys6 \<Rightarrow> 'w word \<Rightarrow> 'w word \<Rightarrow> 'w word \<Rightarrow> ('w, 's) trap" where
  "syscall2 syscall6 n a0 a1 = syscall6 n a0 a1 0 0 0 0"

definition syscall3 ::
  "('w::len, 's) sys6 \<Rightarrow> 'w word \<Rightarrow> 'w word \<Rightarrow> 'w word \<Rightarrow> 'w word \<Rightarrow> ('w, 's) trap" where
  "syscall3 syscall6 n a0 a1 a2 = syscall6 n a0 a1 a2 0 0 0"

definition syscall4 ::
  "('w::len, 's) sys6 \<Rightarrow> 'w word \<Rightarrow> 'w word \<Rightarrow> 'w word \<Rightarrow> 'w word \<Rightarrow> 'w word
    \<Rightarrow> ('w, 's) trap" where
  "syscall4 syscall6 n a0 a1 a2 a3 = syscall6 n a0 a1 a2 a3 0 0"

definition syscall5 ::
  "('w::len, 's) sys6 \<Rightarrow> 'w word \<Rightarrow> 'w word \<Rightarrow> 'w word \<Rightarrow> 'w word \<Rightarrow> 'w word \<Rightarrow> 'w word
    \<Rightarrow> ('w, 's) trap" where
  "syscall5 syscall6 n a0 a1 a2 a3 a4 = syscall6 n a0 a1 a2 a3 a4 0"

section \<open>\<^verbatim>\<open>userland/lib/write.c\<close>\<close>

text \<open>A \<^verbatim>\<open>const void *\<close> is the address it holds; the null pointer holds address 0.\<close>

datatype 'a ptr = Ptr (addr: 'a)

definition NULL :: "'w::len word ptr" where
  "NULL = Ptr 0"

text \<open>
  \<^verbatim>\<open>return __syscall3(__NR_write, (long)fd, (long)buf, (long)count);\<close>
  The four conversions, as the C implementations for this target perform them:
  \<^item> the \<^verbatim>\<open>int\<close> constant \<^verbatim>\<open>__NR_write\<close> becomes a \<^verbatim>\<open>long\<close> of the same value
    (\<open>word_of_int\<close>);
  \<^item> \<^verbatim>\<open>(long)fd\<close> converts a signed \<^verbatim>\<open>int\<close> to \<^verbatim>\<open>long\<close> by value (\<open>scast\<close>);
  \<^item> \<^verbatim>\<open>(long)buf\<close> is the address held by the pointer (\<open>addr\<close>);
  \<^item> \<^verbatim>\<open>(long)count\<close> takes the unsigned value modulo \<open>2 ^ LENGTH('w)\<close> (\<open>ucast\<close> between
    words of one width).
  \<^verbatim>\<open>write\<close> is a reserved word of the theory language, hence the suffix.
\<close>

definition write_c ::
  "('w::len, 's) sys6 \<Rightarrow> 'i::len word \<Rightarrow> 'w word ptr \<Rightarrow> 'w word \<Rightarrow> ('w, 's) trap" where
  "write_c syscall6 fd buf count =
     syscall3 syscall6 (word_of_int NR_write) (scast fd) (addr buf) (ucast count)"

section \<open>Observing the primitive\<close>

text \<open>
  What reaches the primitive is observed by recording it: \<open>traced k\<close> behaves as the
  primitive \<open>k\<close> and appends each entry (the syscall number and the six argument slots) to
  a log kept beside the outside state. The layer's functions are run unchanged on it.
\<close>

datatype 'a call = Call (nr: 'a) (slots: "'a list")

definition traced :: "('w::len, 's) sys6 \<Rightarrow> ('w, 'w word call list \<times> 's) sys6" where
  "traced k n a0 a1 a2 a3 a4 a5 =
     (\<lambda>(log, s). case k n a0 a1 a2 a3 a4 a5 s of
        (r, s') \<Rightarrow> (r, (log @ [Call n [a0, a1, a2, a3, a4, a5]], s')))"

text \<open>The log after running \<open>m\<close> from the log \<open>log\<close> and the outside state \<open>s\<close>, and the
  entries made by \<open>m\<close> alone.\<close>

definition log_after ::
  "('w::len, 'w word call list \<times> 's) trap \<Rightarrow> 'w word call list \<Rightarrow> 's \<Rightarrow> 'w word call list" where
  "log_after m log s = fst (snd (m (log, s)))"

definition calls :: "('w::len, 'w word call list \<times> 's) trap \<Rightarrow> 's \<Rightarrow> 'w word call list" where
  "calls m s = log_after m [] s"

text \<open>
  Storage of the layer's own: the sources declare no object of static storage, so no type
  of the embedding stands for one. To ask whether an operation reads or writes such
  storage, it is run in a process that holds some, of any type \<open>'l\<close>, beside the outside
  state: \<open>beside k\<close> is the primitive \<open>k\<close> in that process, working on the outside state
  and leaving the storage as it is.
\<close>

definition beside :: "('w::len, 's) sys6 \<Rightarrow> ('w, 'l \<times> 's) sys6" where
  "beside k n a0 a1 a2 a3 a4 a5 =
     (\<lambda>(l, s). case k n a0 a1 a2 a3 a4 a5 s of (r, s') \<Rightarrow> (r, (l, s')))"

section \<open>Sample kernels\<close>

text \<open>
  For running the functions on concrete inputs: \<open>accepting\<close> takes every byte of a
  write (it returns the count and adds it to the number of bytes taken so far) and refuses
  every other number with \<open>-1\<close>; \<open>refusing\<close> answers every trap with \<open>-1\<close> and counts the
  traps; \<open>rationed\<close> counts the traps too, answers the first eight with \<open>n + a0\<close> and every
  later one with \<open>-1\<close>, so that its answer depends on the state it is entered in.
\<close>

definition accepting :: "('w::len, nat) sys6" where
  "accepting n a0 a1 a2 a3 a4 a5 =
     (\<lambda>s. if n = 0 then (Some a2, s + unat a2) else (Some (- 1), s))"

definition refusing :: "('w::len, nat) sys6" where
  "refusing n a0 a1 a2 a3 a4 a5 = (\<lambda>s. (Some (- 1), Suc s))"

definition rationed :: "('w::len, nat) sys6" where
  "rationed n a0 a1 a2 a3 a4 a5 = (\<lambda>s. (if s < 8 then Some (n + a0) else Some (- 1), Suc s))"

section \<open>Helper facts\<close>

lemma log_after_traced:
  "log_after (traced k n a0 a1 a2 a3 a4 a5) log s = log @ [Call n [a0, a1, a2, a3, a4, a5]]"
  by (simp add: log_after_def traced_def split: prod.split)

lemma calls_traced:
  "calls (traced k n a0 a1 a2 a3 a4 a5) s = [Call n [a0, a1, a2, a3, a4, a5]]"
  by (simp add: calls_def log_after_traced)

lemma beside_apply:
  "beside k n a0 a1 a2 a3 a4 a5 (l, s)
     = (fst (k n a0 a1 a2 a3 a4 a5 s), l, snd (k n a0 a1 a2 a3 a4 a5 s))"
  by (simp add: beside_def split: prod.split)

lemma write_c_unfold:
  "write_c sys6 fd buf count =
     sys6 (word_of_int NR_write) (scast fd) (addr buf) (ucast count) 0 0 0"
  by (simp add: write_c_def syscall3_def)

lemma log_after_write_c:
  "log_after (write_c (traced k) fd buf count) log s =
     log @ [Call (word_of_int NR_write) [scast fd, addr buf, ucast count, 0, 0, 0]]"
  by (simp add: write_c_unfold log_after_traced)

lemma calls_write_c:
  "calls (write_c (traced k) fd buf count) s =
     [Call (word_of_int NR_write) [scast fd, addr buf, ucast count, 0, 0, 0]]"
  by (simp add: calls_def log_after_write_c)

text \<open>The two's-complement reading of a word, by the range of its unsigned reading.\<close>

lemma sint_lower_half:
  assumes "uint (x::'w::len word) < 2 ^ (LENGTH('w) - 1)"
  shows "sint x = uint x"
proof -
  have "- (2 ^ (LENGTH('w) - 1)) \<le> uint x"
    by (rule order_trans [of _ 0]) simp_all
  with assms show ?thesis
    by (simp add: sint_uint signed_take_bit_int_eq_self)
qed

lemma sint_upper_half:
  assumes "\<not> uint (x::'w::len word) < 2 ^ (LENGTH('w) - 1)"
  shows "sint x = uint x - 2 ^ LENGTH('w)"
proof -
  obtain m where m: "LENGTH('w) = Suc m"
    by (cases "LENGTH('w)") simp_all
  have lt: "uint x < 2 ^ Suc m"
    using uint_bounded [of x] by (simp add: m)
  have ge: "2 ^ m \<le> uint x"
    using assms by (simp add: m)
  have "signed_take_bit m (uint x) = signed_take_bit m (uint x - 2 ^ Suc m)"
    by (simp add: signed_take_bit_eq_iff_take_bit_eq take_bit_eq_mod)
  also have "\<dots> = uint x - 2 ^ Suc m"
    using lt ge by (intro signed_take_bit_int_eq_self) simp_all
  finally show ?thesis
    by (simp add: sint_uint m)
qed

lemma sint_widened:
  assumes "LENGTH('i::len) \<le> LENGTH('w::len)"
  shows "sint (scast (x::'i word) :: 'w word) = sint x"
  using assms by (simp add: sint_up_scast is_up)

section \<open>The syscall invokers\<close>

text \<open>
  C1. For every syscall number \<open>n\<close> and every tuple of \<open>K\<close> argument words (\<open>K\<close> from 0 to 5),
  the call \<^verbatim>\<open>__syscallK(n, a0, ..., a(K-1))\<close> enters the arity-6 primitive with the supplied
  words in the first \<open>K\<close> slots and zero in each of the remaining \<open>6 - K\<close> slots; in
  particular \<^verbatim>\<open>__syscall0(42)\<close> is the primitive called with \<open>(42, 0, 0, 0, 0, 0, 0)\<close>.
\<close>

theorem syscallK_pads_with_zero:
  "calls (syscall0 (traced k) n) s = [Call n ([] @ replicate 6 0)] \<and>
   calls (syscall1 (traced k) n a0) s = [Call n ([a0] @ replicate 5 0)] \<and>
   calls (syscall2 (traced k) n a0 a1) s = [Call n ([a0, a1] @ replicate 4 0)] \<and>
   calls (syscall3 (traced k) n a0 a1 a2) s = [Call n ([a0, a1, a2] @ replicate 3 0)] \<and>
   calls (syscall4 (traced k) n a0 a1 a2 a3) s = [Call n ([a0, a1, a2, a3] @ replicate 2 0)] \<and>
   calls (syscall5 (traced k) n a0 a1 a2 a3 a4) s
     = [Call n ([a0, a1, a2, a3, a4] @ replicate 1 0)] \<and>
   syscall0 sys6 42 = sys6 42 0 0 0 0 0 0 \<and>
   calls (syscall0 (traced k) 42) s = [Call 42 [0, 0, 0, 0, 0, 0]]"
  by (simp add: syscall0_def syscall1_def syscall2_def syscall3_def syscall4_def
      syscall5_def calls_traced numeral_eq_Suc)

text \<open>
  C3. For every \<open>K\<close> from 0 to 5 and every argument tuple, what \<^verbatim>\<open>__syscallK\<close> returns is
  what the arity-6 primitive returns for the zero-padded call, bit for bit: no invoker
  transforms the primitive's result.
\<close>

theorem syscallK_result_is_primitive_result:
  "fst (syscall0 sys6 n s) = fst (sys6 n 0 0 0 0 0 0 s) \<and>
   fst (syscall1 sys6 n a0 s) = fst (sys6 n a0 0 0 0 0 0 s) \<and>
   fst (syscall2 sys6 n a0 a1 s) = fst (sys6 n a0 a1 0 0 0 0 s) \<and>
   fst (syscall3 sys6 n a0 a1 a2 s) = fst (sys6 n a0 a1 a2 0 0 0 s) \<and>
   fst (syscall4 sys6 n a0 a1 a2 a3 s) = fst (sys6 n a0 a1 a2 a3 0 0 s) \<and>
   fst (syscall5 sys6 n a0 a1 a2 a3 a4 s) = fst (sys6 n a0 a1 a2 a3 a4 0 s)"
  by (simp add: syscall0_def syscall1_def syscall2_def syscall3_def syscall4_def
      syscall5_def)

section \<open>The \<^verbatim>\<open>write\<close> wrapper\<close>

text \<open>
  C2. For every \<open>fd\<close>, buffer \<open>buf\<close> and \<open>count\<close>, \<^verbatim>\<open>write(fd, buf, count)\<close> calls the
  arity-3 invoker with the write constant as syscall number and the three arguments as
  machine words: \<open>fd\<close> widened to the width of \<^verbatim>\<open>long\<close> with its value kept, \<open>buf\<close> as its
  address, \<open>count\<close> with its bits kept; and it returns what the primitive returns. In
  particular \<^verbatim>\<open>write(1, "hi", 2)\<close>, with \<open>hi\<close> the address of the literal, reaches the
  primitive as \<open>(write_number, 1, hi, 2, 0, 0, 0)\<close> and hands back its result unchanged.
  The two hypotheses are what C promises of every ABI: an \<^verbatim>\<open>int\<close> has at least two bits (in
  fact sixteen), and a \<^verbatim>\<open>long\<close> is at least as wide as an \<^verbatim>\<open>int\<close>.
\<close>

theorem write_c_invokes_syscall3:
  assumes "2 \<le> LENGTH('i::len)" and "LENGTH('i) \<le> LENGTH('w::len)"
  shows
    "write_c sys6 (fd::'i word) buf count
       = syscall3 sys6 (word_of_int NR_write) (scast fd) (addr buf) (ucast count :: 'w word) \<and>
     sint (scast fd :: 'w word) = sint fd \<and>
     uint (ucast count :: 'w word) = uint count \<and>
     write_c sys6 fd buf count s
       = sys6 (word_of_int NR_write) (scast fd) (addr buf) (ucast count) 0 0 0 s \<and>
     calls (write_c (traced sys6) (1::'i word) (Ptr hi) 2) s
       = [Call (word_of_int NR_write) [1, hi, 2, 0, 0, 0]] \<and>
     write_c sys6 (1::'i word) (Ptr hi) 2 s = sys6 (word_of_int NR_write) 1 hi 2 0 0 0 s"
proof -
  have one: "scast (1::'i word) = (1::'w word)"
    using assms(1) by simp
  have hi_call: "calls (write_c (traced sys6) (1::'i word) (Ptr hi) 2) s
       = [Call (word_of_int NR_write) [1, hi, 2, 0, 0, 0]]"
    by (simp only: calls_write_c one ucast_id ptr.sel)
  have hi_result: "write_c sys6 (1::'i word) (Ptr hi) 2 s
       = sys6 (word_of_int NR_write) 1 hi 2 0 0 0 s"
    by (simp only: write_c_unfold one ucast_id ptr.sel)
  have widened: "sint (scast fd :: 'w word) = sint fd"
    using assms(2) by (rule sint_widened)
  have unfolded: "write_c sys6 fd buf count s
       = sys6 (word_of_int NR_write) (scast fd) (addr buf) (ucast count) 0 0 0 s"
    by (simp only: write_c_unfold)
  have delegated: "write_c sys6 fd buf count
       = syscall3 sys6 (word_of_int NR_write) (scast fd) (addr buf) (ucast count)"
    by (simp only: write_c_def)
  have bits: "uint (ucast count :: 'w word) = uint count"
    by simp
  from delegated widened bits unfolded hi_call hi_result show ?thesis
    by (intro conjI)
qed

theorem write_c_invokes_syscall3_witness:
  "2 \<le> LENGTH(32) \<and> LENGTH(32) \<le> LENGTH(64) \<and>
   calls (write_c (traced accepting) (1::32 word) (Ptr (4096::64 word)) 2) 0
     = [Call 0 [1, 4096, 2, 0, 0, 0]] \<and>
   write_c accepting (1::32 word) (Ptr (4096::64 word)) 2 0 = (Some 2, 2)"
  using write_c_invokes_syscall3 [where 'i = 32 and 'w = 64 and ?sys6.0 = accepting
      and hi = 4096 and s = 0]
  by (simp add: accepting_def NR_write_def syscall3_def)

text \<open>
  C4. The syscall number of the write operation is the non-negative integer 0, and
  \<^verbatim>\<open>write\<close> passes exactly this constant as the syscall number: the one entry it makes at
  the primitive carries the number 0.
\<close>

theorem write_number_is_zero:
  "NR_write = 0 \<and> 0 \<le> NR_write \<and>
   map nr (calls (write_c (traced k) fd buf count) s) = [word_of_int NR_write] \<and>
   map nr (calls (write_c (traced k) fd buf count) s) = [0]"
  by (simp add: calls_write_c NR_write_def)

text \<open>
  C5. For every \<open>fd\<close> and \<open>buf\<close>, \<^verbatim>\<open>write(fd, buf, 0)\<close> still enters the primitive (a count
  of zero is not short-circuited) and its outcome is the primitive's outcome for that call.
\<close>

theorem write_c_zero_count_still_traps:
  "calls (write_c (traced k) fd buf 0) s
     = [Call (word_of_int NR_write) [scast fd, addr buf, 0, 0, 0, 0]] \<and>
   write_c sys6 fd buf 0 s = sys6 (word_of_int NR_write) (scast fd) (addr buf) 0 0 0 0 s"
  by (simp add: calls_write_c) (simp add: write_c_unfold)

text \<open>
  C9. \<^verbatim>\<open>write\<close> passes its unsigned \<open>count\<close> as a signed word by two's-complement
  reinterpretation. With \<open>w\<close> the width of \<^verbatim>\<open>long\<close>, the third slot reads as \<open>count\<close> when
  \<open>count < 2 ^ (w - 1)\<close> and as \<open>count - 2 ^ w\<close> otherwise; its bits are those of \<open>count\<close>:
  nothing is clamped, truncated or rejected.
\<close>

theorem write_c_count_reinterpreted:
  "sint (slots (hd (calls (write_c (traced k) fd buf (count::'w::len word)) s)) ! 2)
     = (if uint count < 2 ^ (LENGTH('w) - 1) then uint count
        else uint count - 2 ^ LENGTH('w)) \<and>
   uint (slots (hd (calls (write_c (traced k) fd buf count) s)) ! 2) = uint count \<and>
   slots (hd (calls (write_c (traced k) fd buf count) s)) ! 2 = count"
  by (simp add: calls_write_c sint_lower_half sint_upper_half)

theorem write_c_count_reinterpreted_witness:
  "sint (slots (hd (calls (write_c (traced accepting) (1::32 word) (Ptr 4096) (5::64 word)) 0)) ! 2)
     = 5 \<and>
   sint (slots (hd (calls (write_c (traced accepting) (1::32 word) (Ptr 4096)
      (18446744073709551615::64 word)) 0)) ! 2) = - 1 \<and>
   sint (slots (hd (calls (write_c (traced accepting) (1::32 word) (Ptr 4096)
      (9223372036854775808::64 word)) 0)) ! 2) = - 9223372036854775808"
  using
    write_c_count_reinterpreted [where k = "accepting" and fd = "1::32 word" and buf = "Ptr 4096"
      and count = "5::64 word" and s = 0]
    write_c_count_reinterpreted [where k = "accepting" and fd = "1::32 word" and buf = "Ptr 4096"
      and count = "18446744073709551615::64 word" and s = 0]
    write_c_count_reinterpreted [where k = "accepting" and fd = "1::32 word" and buf = "Ptr 4096"
      and count = "9223372036854775808::64 word" and s = 0]
  by simp

text \<open>
  C10. \<^verbatim>\<open>write\<close> validates nothing: for every \<^verbatim>\<open>int\<close> \<open>fd\<close> the first slot is \<open>fd\<close>
  sign-extended to the width of \<^verbatim>\<open>long\<close> (so \<open>-1\<close> goes through as the word \<open>-1\<close>), a null
  buffer goes through as the word 0, and the primitive is entered all the same. The
  hypothesis is C's promise that a \<^verbatim>\<open>long\<close> is at least as wide as an \<^verbatim>\<open>int\<close>.
\<close>

theorem write_c_no_validation:
  assumes "LENGTH('i::len) \<le> LENGTH('w::len)"
  shows
    "sint (slots (hd (calls (write_c (traced k) (fd::'i word) buf count) s)) ! 0 :: 'w word)
       = sint fd \<and>
     slots (hd (calls (write_c (traced k) (- 1 :: 'i word) buf count) s)) ! 0 = (- 1 :: 'w word) \<and>
     slots (hd (calls (write_c (traced k) fd NULL count) s)) ! 1 = (0 :: 'w word) \<and>
     length (calls (write_c (traced k) fd buf count) s) = 1"
  using assms by (simp add: calls_write_c sint_widened NULL_def)

theorem write_c_no_validation_witness:
  "LENGTH(32) \<le> LENGTH(64) \<and>
   calls (write_c (traced accepting) (- 1 :: 32 word) NULL (7::64 word)) 0
     = [Call 0 [- 1, 0, 7, 0, 0, 0]] \<and>
   sint (slots (hd (calls (write_c (traced accepting) (- 1 :: 32 word) NULL (7::64 word)) 0)) ! 0)
     = - 1"
  using write_c_no_validation [where 'i = 32 and 'w = 64 and k = accepting and fd = "- 1"
      and buf = NULL and count = 7 and s = 0]
  by (simp add: calls_write_c NULL_def NR_write_def)

section \<open>The layer as a whole\<close>

text \<open>
  C6. No operation of the layer fails on its own account: whenever the primitive, on the
  words the operation passes, answers \<open>r\<close> (any word, a kernel error encoding included, or
  no return at all) and leaves the state \<open>s'\<close>, the operation answers that same \<open>r\<close> in that
  same state; nothing is recovered, retried or translated.
\<close>

theorem no_error_of_its_own:
  "(sys6 n 0 0 0 0 0 0 s = (r, s') \<longrightarrow> syscall0 sys6 n s = (r, s')) \<and>
   (sys6 n a0 0 0 0 0 0 s = (r, s') \<longrightarrow> syscall1 sys6 n a0 s = (r, s')) \<and>
   (sys6 n a0 a1 0 0 0 0 s = (r, s') \<longrightarrow> syscall2 sys6 n a0 a1 s = (r, s')) \<and>
   (sys6 n a0 a1 a2 0 0 0 s = (r, s') \<longrightarrow> syscall3 sys6 n a0 a1 a2 s = (r, s')) \<and>
   (sys6 n a0 a1 a2 a3 0 0 s = (r, s') \<longrightarrow> syscall4 sys6 n a0 a1 a2 a3 s = (r, s')) \<and>
   (sys6 n a0 a1 a2 a3 a4 0 s = (r, s') \<longrightarrow> syscall5 sys6 n a0 a1 a2 a3 a4 s = (r, s')) \<and>
   (sys6 (word_of_int NR_write) (scast fd) (addr buf) (ucast count) 0 0 0 s = (r, s')
      \<longrightarrow> write_c sys6 fd buf count s = (r, s'))"
  by (simp add: syscall0_def syscall1_def syscall2_def syscall3_def syscall4_def
      syscall5_def write_c_unfold)

theorem no_error_of_its_own_witness:
  "refusing (3::64 word) 0 0 0 0 0 0 0 = (Some (- 1), 1) \<and>
   syscall0 refusing (3::64 word) 0 = (Some (- 1), 1) \<and>
   refusing (3::64 word) 10 0 0 0 0 0 0 = (Some (- 1), 1) \<and>
   syscall1 refusing (3::64 word) 10 0 = (Some (- 1), 1) \<and>
   refusing (3::64 word) 10 11 0 0 0 0 0 = (Some (- 1), 1) \<and>
   syscall2 refusing (3::64 word) 10 11 0 = (Some (- 1), 1) \<and>
   refusing (3::64 word) 10 11 12 0 0 0 0 = (Some (- 1), 1) \<and>
   syscall3 refusing (3::64 word) 10 11 12 0 = (Some (- 1), 1) \<and>
   refusing (3::64 word) 10 11 12 13 0 0 0 = (Some (- 1), 1) \<and>
   syscall4 refusing (3::64 word) 10 11 12 13 0 = (Some (- 1), 1) \<and>
   refusing (3::64 word) 10 11 12 13 14 0 0 = (Some (- 1), 1) \<and>
   syscall5 refusing (3::64 word) 10 11 12 13 14 0 = (Some (- 1), 1) \<and>
   refusing (word_of_int NR_write) (scast (1::32 word)) (addr (Ptr 4096)) (ucast (2::64 word))
     0 0 0 0 = (Some (- 1 :: 64 word), 1) \<and>
   write_c refusing (1::32 word) (Ptr (4096::64 word)) 2 0 = (Some (- 1), 1)"
proof -
  have h: "\<And>n a0 a1 a2 a3 a4 a5. refusing (n::64 word) a0 a1 a2 a3 a4 a5 0 = (Some (- 1), 1)"
    by (simp add: refusing_def)
  show ?thesis
    using no_error_of_its_own [where ?sys6.0 = "refusing :: (64, nat) sys6" and n = 3
        and ?a0.0 = 10 and ?a1.0 = 11 and ?a2.0 = 12 and ?a3.0 = 13 and ?a4.0 = 14 and s = 0 and r = "Some (- 1)"
        and s' = 1 and fd = "1::32 word" and buf = "Ptr 4096" and count = 2]
    by (simp add: h)
qed

text \<open>
  C7. Every call of an invoker \<^verbatim>\<open>__syscallK\<close> and every call of \<^verbatim>\<open>write\<close> enters the arity-6
  primitive exactly once: whatever the log of earlier entries, the call adds one entry to
  it, no fewer and no more, and the state it leaves is the state the primitive left.
\<close>

theorem exactly_one_trap:
  "log_after (syscall0 (traced k) n) log s = log @ [Call n [0, 0, 0, 0, 0, 0]] \<and>
   length (log_after (syscall0 (traced k) n) log s) = Suc (length log) \<and>
   length (log_after (syscall1 (traced k) n a0) log s) = Suc (length log) \<and>
   length (log_after (syscall2 (traced k) n a0 a1) log s) = Suc (length log) \<and>
   length (log_after (syscall3 (traced k) n a0 a1 a2) log s) = Suc (length log) \<and>
   length (log_after (syscall4 (traced k) n a0 a1 a2 a3) log s) = Suc (length log) \<and>
   length (log_after (syscall5 (traced k) n a0 a1 a2 a3 a4) log s) = Suc (length log) \<and>
   length (log_after (write_c (traced k) fd buf count) log s) = Suc (length log) \<and>
   snd (syscall0 sys6 n s) = snd (sys6 n 0 0 0 0 0 0 s)"
  by (simp add: syscall0_def syscall1_def syscall2_def syscall3_def syscall4_def
      syscall5_def log_after_traced log_after_write_c)

text \<open>
  C8. The layer holds no state of its own, so the result of a call depends on the
  arguments and on the primitive alone. For every primitive, also one whose answers change
  with the outside state, and any two states \<open>s\<close> and \<open>s'\<close> (\<open>s'\<close> may be the state an earlier
  call left): if the primitive answers the zero-padded call alike in both, the operation
  returns alike in both; its result follows no other trap and nothing else of the state.
  And in a process that holds storage \<open>l\<close> of the layer's own beside the outside state \<open>t\<close>,
  each operation yields what the primitive yields on \<open>t\<close>, whatever \<open>l\<close> is, and leaves \<open>l\<close>
  as it found it: nothing is kept from one call for the next.
\<close>

theorem no_state_of_its_own:
  "(fst (sys6 n 0 0 0 0 0 0 s) = fst (sys6 n 0 0 0 0 0 0 s')
      \<longrightarrow> fst (syscall0 sys6 n s) = fst (syscall0 sys6 n s')) \<and>
   (fst (sys6 n a0 0 0 0 0 0 s) = fst (sys6 n a0 0 0 0 0 0 s')
      \<longrightarrow> fst (syscall1 sys6 n a0 s) = fst (syscall1 sys6 n a0 s')) \<and>
   (fst (sys6 n a0 a1 0 0 0 0 s) = fst (sys6 n a0 a1 0 0 0 0 s')
      \<longrightarrow> fst (syscall2 sys6 n a0 a1 s) = fst (syscall2 sys6 n a0 a1 s')) \<and>
   (fst (sys6 n a0 a1 a2 0 0 0 s) = fst (sys6 n a0 a1 a2 0 0 0 s')
      \<longrightarrow> fst (syscall3 sys6 n a0 a1 a2 s) = fst (syscall3 sys6 n a0 a1 a2 s')) \<and>
   (fst (sys6 n a0 a1 a2 a3 0 0 s) = fst (sys6 n a0 a1 a2 a3 0 0 s')
      \<longrightarrow> fst (syscall4 sys6 n a0 a1 a2 a3 s) = fst (syscall4 sys6 n a0 a1 a2 a3 s')) \<and>
   (fst (sys6 n a0 a1 a2 a3 a4 0 s) = fst (sys6 n a0 a1 a2 a3 a4 0 s')
      \<longrightarrow> fst (syscall5 sys6 n a0 a1 a2 a3 a4 s) = fst (syscall5 sys6 n a0 a1 a2 a3 a4 s')) \<and>
   (fst (sys6 (word_of_int NR_write) (scast fd) (addr buf) (ucast count) 0 0 0 s)
      = fst (sys6 (word_of_int NR_write) (scast fd) (addr buf) (ucast count) 0 0 0 s')
      \<longrightarrow> fst (write_c sys6 fd buf count s) = fst (write_c sys6 fd buf count s')) \<and>
   syscall0 (beside k) n (l, t)
     = (fst (k n 0 0 0 0 0 0 t), l, snd (k n 0 0 0 0 0 0 t)) \<and>
   syscall1 (beside k) n a0 (l, t)
     = (fst (k n a0 0 0 0 0 0 t), l, snd (k n a0 0 0 0 0 0 t)) \<and>
   syscall2 (beside k) n a0 a1 (l, t)
     = (fst (k n a0 a1 0 0 0 0 t), l, snd (k n a0 a1 0 0 0 0 t)) \<and>
   syscall3 (beside k) n a0 a1 a2 (l, t)
     = (fst (k n a0 a1 a2 0 0 0 t), l, snd (k n a0 a1 a2 0 0 0 t)) \<and>
   syscall4 (beside k) n a0 a1 a2 a3 (l, t)
     = (fst (k n a0 a1 a2 a3 0 0 t), l, snd (k n a0 a1 a2 a3 0 0 t)) \<and>
   syscall5 (beside k) n a0 a1 a2 a3 a4 (l, t)
     = (fst (k n a0 a1 a2 a3 a4 0 t), l, snd (k n a0 a1 a2 a3 a4 0 t)) \<and>
   write_c (beside k) fd buf count (l, t)
     = (fst (k (word_of_int NR_write) (scast fd) (addr buf) (ucast count) 0 0 0 t), l,
        snd (k (word_of_int NR_write) (scast fd) (addr buf) (ucast count) 0 0 0 t))"
  by (simp add: syscall0_def syscall1_def syscall2_def syscall3_def syscall4_def
      syscall5_def write_c_unfold beside_apply)

theorem no_state_of_its_own_witness:
  "fst (rationed (3::64 word) 0 0 0 0 0 0 0) = fst (rationed (3::64 word) 0 0 0 0 0 0 1) \<and>
   fst (syscall0 rationed (3::64 word) 0) = fst (syscall0 rationed (3::64 word) 1) \<and>
   fst (rationed (3::64 word) 10 0 0 0 0 0 0) = fst (rationed (3::64 word) 10 0 0 0 0 0 1) \<and>
   fst (syscall1 rationed (3::64 word) 10 0) = fst (syscall1 rationed (3::64 word) 10 1) \<and>
   fst (rationed (3::64 word) 10 11 0 0 0 0 0) = fst (rationed (3::64 word) 10 11 0 0 0 0 1) \<and>
   fst (syscall2 rationed (3::64 word) 10 11 0) = fst (syscall2 rationed (3::64 word) 10 11 1) \<and>
   fst (rationed (3::64 word) 10 11 12 0 0 0 0) = fst (rationed (3::64 word) 10 11 12 0 0 0 1) \<and>
   fst (syscall3 rationed (3::64 word) 10 11 12 0)
     = fst (syscall3 rationed (3::64 word) 10 11 12 1) \<and>
   fst (rationed (3::64 word) 10 11 12 13 0 0 0)
     = fst (rationed (3::64 word) 10 11 12 13 0 0 1) \<and>
   fst (syscall4 rationed (3::64 word) 10 11 12 13 0)
     = fst (syscall4 rationed (3::64 word) 10 11 12 13 1) \<and>
   fst (rationed (3::64 word) 10 11 12 13 14 0 0)
     = fst (rationed (3::64 word) 10 11 12 13 14 0 1) \<and>
   fst (syscall5 rationed (3::64 word) 10 11 12 13 14 0)
     = fst (syscall5 rationed (3::64 word) 10 11 12 13 14 1) \<and>
   fst (rationed (word_of_int NR_write) (scast (1::32 word)) (addr (Ptr 4096))
          (ucast (2::64 word)) 0 0 0 0)
     = fst (rationed (word_of_int NR_write) (scast (1::32 word)) (addr (Ptr 4096))
          (ucast (2::64 word)) 0 0 0 1) \<and>
   fst (write_c rationed (1::32 word) (Ptr (4096::64 word)) 2 0)
     = fst (write_c rationed (1::32 word) (Ptr (4096::64 word)) 2 1) \<and>
   snd (write_c rationed (1::32 word) (Ptr (4096::64 word)) 2 0) = 1 \<and>
   fst (write_c rationed (1::32 word) (Ptr (4096::64 word)) 2 0) = Some 1 \<and>
   fst (write_c rationed (1::32 word) (Ptr (4096::64 word)) 2 8) = Some (- 1) \<and>
   write_c (beside rationed) (1::32 word) (Ptr (4096::64 word)) 2 (True, 0)
     = (Some 1, True, 1)"
  using no_state_of_its_own [where ?sys6.0 = "rationed :: (64, nat) sys6" and n = 3
      and ?a0.0 = 10 and ?a1.0 = 11 and ?a2.0 = 12 and ?a3.0 = 13 and ?a4.0 = 14
      and s = 0 and s' = 1 and fd = "1::32 word" and buf = "Ptr 4096" and count = 2
      and k = "rationed :: (64, nat) sys6" and l = True and t = 0]
  by (simp add: rationed_def NR_write_def syscall0_def syscall1_def syscall2_def syscall3_def
      syscall4_def syscall5_def write_c_unfold beside_apply)

end
